theory Spec2Isabelle
  imports Main "HOL-Library.Sublist"
begin

section \<open>Values exchanged with the authentication provider\<close>

text \<open>
  The client store (\<^verbatim>\<open>src/store/authStore.ts\<close>), the provider component
  (\<^verbatim>\<open>AuthProvider\<close>), the tRPC client (\<^verbatim>\<open>headers\<close>, \<^verbatim>\<open>errorLink\<close>) and the server
  context (\<^verbatim>\<open>src/server/context.ts\<close>) all talk to the Supabase client. Its calls are
  network calls: each one either resolves with a response object or rejects (throws).
  A rejected call is \<open>Threw\<close>, a resolved one \<open>Returned\<close>.

  A thrown JavaScript value is kept as the one thing the code reads from it, its
  \<^verbatim>\<open>message\<close> property, which may be missing.
\<close>

datatype thrown = Thrown (thrown_message: "string option")

datatype 'a outcome = Threw thrown | Returned 'a

text \<open>An error object the provider returns in the \<^verbatim>\<open>error\<close> field of a response.\<close>

datatype AuthError = AuthError (message: string)

text \<open>
  The provider's user object, as far as the code reads it: \<^verbatim>\<open>id\<close>, \<^verbatim>\<open>email\<close>
  (optional in the provider's type; the code writes \<^verbatim>\<open>email!\<close>, which checks nothing
  when it runs) and \<^verbatim>\<open>user_metadata?.name\<close>.
\<close>

datatype SupabaseUser =
  SupabaseUser (su_id: string) (su_email: "string option") (su_metadata_name: "string option")

datatype Session =
  Session (access_token: string) (session_user: "SupabaseUser option")

text \<open>\<^verbatim>\<open>{ data: { session }, error }\<close> of \<^verbatim>\<open>supabase.auth.getSession()\<close>.\<close>

datatype SessionResponse =
  SessionResponse (data_session: "Session option") (session_error: "AuthError option")

text \<open>\<^verbatim>\<open>{ data: { user, session }, error }\<close> of \<^verbatim>\<open>signUp\<close> and \<^verbatim>\<open>signInWithPassword\<close>.\<close>

datatype AuthTokenResponse =
  AuthTokenResponse (data_user: "SupabaseUser option") (data_token_session: "Session option")
    (token_error: "AuthError option")

text \<open>\<^verbatim>\<open>{ data: { user }, error }\<close> of \<^verbatim>\<open>supabaseAdmin.auth.getUser(token)\<close>.\<close>

datatype UserResponse =
  UserResponse (verified_user: "SupabaseUser option") (user_error: "AuthError option")

section \<open>The store's data model\<close>

record User =
  user_id :: string
  email :: "string option"
  name :: "string option"

record AuthResponse =
  response_user :: "User option"
  needsConfirmation :: bool
  success :: bool

record AuthState =
  isAuthenticated :: bool
  user :: "User option"
  loading :: bool
  error :: "string option"
  loggingOut :: bool

text \<open>The value \<^verbatim>\<open>authStateAtom\<close> is created with.\<close>

definition authStateAtom :: AuthState where
  "authStateAtom =
     \<lparr>isAuthenticated = False, user = None, loading = True, error = None, loggingOut = False\<rparr>"

subsection \<open>JavaScript helpers\<close>

text \<open>
  Truthiness of an optional string: \<^verbatim>\<open>undefined\<close>, \<^verbatim>\<open>null\<close> and the empty string are
  falsy.
\<close>

definition truthy :: "string option \<Rightarrow> bool" where
  "truthy v = (case v of None \<Rightarrow> False | Some s \<Rightarrow> s \<noteq> [])"

text \<open>\<^verbatim>\<open>v || d\<close> for an optional string \<open>v\<close> and a string \<open>d\<close>.\<close>

definition js_or :: "string option \<Rightarrow> string \<Rightarrow> string" where
  "js_or v d = (case v of None \<Rightarrow> d | Some s \<Rightarrow> if s = [] then d else s)"

text \<open>\<^verbatim>\<open>s.split('@')[0]\<close>: the part of \<open>s\<close> before its first \<^verbatim>\<open>@\<close>, all of \<open>s\<close> when it has none.\<close>

definition local_part :: "string \<Rightarrow> string" where
  "local_part s = takeWhile (\<lambda>c. c \<noteq> CHR ''@'') s"

text \<open>
  The \<^verbatim>\<open>TypeError\<close> of calling \<^verbatim>\<open>split\<close> on \<^verbatim>\<open>undefined\<close>, with the message Node gives
  it. The wording depends on the JavaScript engine; only its being non-empty matters below.
\<close>

definition split_of_undefined :: thrown where
  "split_of_undefined = Thrown (Some ''Cannot read properties of undefined (reading 'split')'')"

text \<open>
  The object literal that the source writes out in five places (initialization, sign-up,
  sign-in, the provider-event handler, the server context):
  \<^verbatim>\<open>{ id: u.id, email: u.email!, name: u.user_metadata?.name || u.email!.split('@')[0] }\<close>.
  When the metadata name is falsy and the email is missing, evaluating the \<^verbatim>\<open>name\<close>
  property throws.
\<close>

definition toUser :: "SupabaseUser \<Rightarrow> thrown + User" where
  "toUser u =
     (if truthy (su_metadata_name u)
      then Inr \<lparr>user_id = su_id u, email = su_email u, name = su_metadata_name u\<rparr>
      else (case su_email u of
              None \<Rightarrow> Inl split_of_undefined
            | Some e \<Rightarrow> Inr \<lparr>user_id = su_id u, email = Some e, name = Some (local_part e)\<rparr>))"

section \<open>The store's write operations\<close>

definition setLoadingAtom :: "bool \<Rightarrow> AuthState \<Rightarrow> AuthState" where
  "setLoadingAtom l currentState =
     currentState\<lparr>loading := l, error := (if l then None else error currentState)\<rparr>"

definition setAuthStateAtom :: "AuthState \<Rightarrow> AuthState \<Rightarrow> AuthState" where
  "setAuthStateAtom newState currentState = newState"

definition clearErrorAtom :: "AuthState \<Rightarrow> AuthState" where
  "clearErrorAtom currentState = currentState\<lparr>error := None\<rparr>"

text \<open>
  The three snapshots the source writes as object literals: signed in as a user, logged
  out, and logged out with an error text.
\<close>

definition signedInState :: "User option \<Rightarrow> AuthState" where
  "signedInState u =
     \<lparr>isAuthenticated = True, user = u, loading = False, error = None, loggingOut = False\<rparr>"

definition loggedOutState :: AuthState where
  "loggedOutState =
     \<lparr>isAuthenticated = False, user = None, loading = False, error = None, loggingOut = False\<rparr>"

definition failedState :: "string \<Rightarrow> AuthState" where
  "failedState m =
     \<lparr>isAuthenticated = False, user = None, loading = False, error = Some m, loggingOut = False\<rparr>"

section \<open>Initialization\<close>

text \<open>
  \<^verbatim>\<open>initializeAuthAtom\<close> writes \<^verbatim>\<open>setLoadingAtom(true)\<close>, awaits
  \<^verbatim>\<open>supabase.auth.getSession()\<close> and then writes one snapshot. The part after the await
  is \<open>initializeAuth_resume\<close>; other writers can run between the two parts. Every store
  write after the await replaces the whole state, so the resumed part does not read it.
\<close>

definition initializeAuth_catch :: "thrown \<Rightarrow> AuthState" where
  "initializeAuth_catch e =
     failedState (js_or (thrown_message e) ''Authentication initialization failed'')"

definition initializeAuth_resume :: "SessionResponse outcome \<Rightarrow> AuthState \<Rightarrow> AuthState" where
  "initializeAuth_resume r s =
     (case r of
        Threw e \<Rightarrow> initializeAuth_catch e
      | Returned resp \<Rightarrow>
          (case session_error resp of
             Some err \<Rightarrow> failedState (message err)
           | None \<Rightarrow>
               (case data_session resp of
                  None \<Rightarrow> loggedOutState
                | Some sess \<Rightarrow>
                    (case session_user sess of
                       None \<Rightarrow> loggedOutState
                     | Some su \<Rightarrow>
                         (case toUser su of
                            Inl e \<Rightarrow> initializeAuth_catch e
                          | Inr u \<Rightarrow> signedInState (Some u))))))"

definition initializeAuthAtom :: "SessionResponse outcome \<Rightarrow> AuthState \<Rightarrow> AuthState" where
  "initializeAuthAtom r s = initializeAuth_resume r (setLoadingAtom True s)"

section \<open>Sign-up and sign-in\<close>

text \<open>
  \<^verbatim>\<open>let user = null; if (data.user) { user = {...} }\<close>: the derived user, or the
  \<^verbatim>\<open>TypeError\<close> of the object literal.
\<close>

definition derive_user :: "SupabaseUser option \<Rightarrow> thrown + User option" where
  "derive_user du =
     (case du of
        None \<Rightarrow> Inr None
      | Some su \<Rightarrow> (case toUser su of Inl e \<Rightarrow> Inl e | Inr u \<Rightarrow> Inr (Some u)))"

text \<open>
  Both orchestrators write \<^verbatim>\<open>setLoadingAtom(true)\<close>, await the provider and resume.
  The resumed part returns the \<^verbatim>\<open>AuthResponse\<close> or the value it throws, and the store
  it leaves. An error the provider returns is thrown inside the \<^verbatim>\<open>try\<close> block, so the
  \<^verbatim>\<open>catch\<close> block runs \<^verbatim>\<open>setLoadingAtom(false)\<close> a second time before rethrowing.
\<close>

definition signUp_resume ::
  "AuthTokenResponse outcome \<Rightarrow> AuthState \<Rightarrow> (thrown + AuthResponse) \<times> AuthState" where
  "signUp_resume r s =
     (case r of
        Threw e \<Rightarrow> (Inl e, setLoadingAtom False s)
      | Returned resp \<Rightarrow>
          (case token_error resp of
             Some err \<Rightarrow>
               (Inl (Thrown (Some (message err))), setLoadingAtom False (setLoadingAtom False s))
           | None \<Rightarrow>
               (case derive_user (data_user resp) of
                  Inl e \<Rightarrow> (Inl e, setLoadingAtom False s)
                | Inr u \<Rightarrow>
                    (Inr \<lparr>response_user = u,
                          needsConfirmation =
                            (data_user resp \<noteq> None \<and> data_token_session resp = None),
                          success = (data_user resp \<noteq> None)\<rparr>,
                     if data_user resp \<noteq> None \<and> data_token_session resp \<noteq> None
                     then signedInState u
                     else setLoadingAtom False s))))"

definition signUpAtom ::
  "AuthTokenResponse outcome \<Rightarrow> AuthState \<Rightarrow> (thrown + AuthResponse) \<times> AuthState" where
  "signUpAtom r s = signUp_resume r (setLoadingAtom True s)"

definition signIn_resume ::
  "AuthTokenResponse outcome \<Rightarrow> AuthState \<Rightarrow> (thrown + AuthResponse) \<times> AuthState" where
  "signIn_resume r s =
     (case r of
        Threw e \<Rightarrow> (Inl e, setLoadingAtom False s)
      | Returned resp \<Rightarrow>
          (case token_error resp of
             Some err \<Rightarrow>
               (Inl (Thrown (Some (message err))), setLoadingAtom False (setLoadingAtom False s))
           | None \<Rightarrow>
               (case derive_user (data_user resp) of
                  Inl e \<Rightarrow> (Inl e, setLoadingAtom False s)
                | Inr u \<Rightarrow>
                    (Inr \<lparr>response_user = u,
                          needsConfirmation =
                            (data_user resp \<noteq> None \<and> data_token_session resp = None),
                          success =
                            (data_user resp \<noteq> None \<and> data_token_session resp \<noteq> None)\<rparr>,
                     if data_user resp \<noteq> None \<and> data_token_session resp \<noteq> None
                     then signedInState u
                     else setLoadingAtom False s))))"

definition signInAtom ::
  "AuthTokenResponse outcome \<Rightarrow> AuthState \<Rightarrow> (thrown + AuthResponse) \<times> AuthState" where
  "signInAtom r s = signIn_resume r (setLoadingAtom True s)"

section \<open>Effects\<close>

text \<open>
  What the code does besides computing a value: store writes, provider calls, console
  output, the assignment to \<^verbatim>\<open>window.location.href\<close> and the error handed to the next
  observer. An RPC error is kept as what \<^verbatim>\<open>errorLink\<close> reads from it: whether it is a
  \<^verbatim>\<open>TRPCClientError\<close>, and \<^verbatim>\<open>err.data?.code\<close>; \<open>err_tag\<close> tells errors apart.
\<close>

datatype rpc_error =
  RpcError (is_TRPCClientError: bool) (data_code: "string option") (err_tag: nat)

datatype effect =
    StoreSet AuthState
  | ProviderSignOut
  | ProviderGetSession
  | ConsoleError
  | ConsoleWarn
  | ConsoleLog
  | SetLocationHref string
  | ObserverError rpc_error

record world =
  store :: AuthState
  effects :: "effect list"

definition emit :: "effect \<Rightarrow> world \<Rightarrow> world" where
  "emit e w = w\<lparr>effects := effects w @ [e]\<rparr>"

definition set_store :: "AuthState \<Rightarrow> world \<Rightarrow> world" where
  "set_store s w = w\<lparr>store := s, effects := effects w @ [StoreSet s]\<rparr>"

section \<open>Sign-out\<close>

text \<open>
  The \<^verbatim>\<open>try\<close> block of \<^verbatim>\<open>signOutAtom\<close>. \<open>dev\<close> is
  \<^verbatim>\<open>process.env.NODE_ENV === 'development'\<close>; \<open>r1\<close>, \<open>r2\<close> and \<open>r3\<close> are what the
  provider answers to the first \<^verbatim>\<open>signOut\<close>, to \<^verbatim>\<open>getSession\<close> and to the second
  \<^verbatim>\<open>signOut\<close>, should the code get to ask.
\<close>

definition signOut_try ::
  "bool \<Rightarrow> AuthError option outcome \<Rightarrow> SessionResponse outcome \<Rightarrow> AuthError option outcome
     \<Rightarrow> world \<Rightarrow> (thrown + unit) \<times> world" where
  "signOut_try dev r1 r2 r3 w =
     (let w1 = set_store ((store w)\<lparr>loggingOut := True\<rparr>) w;
          w2 = emit ProviderSignOut w1
      in case r1 of
           Threw e \<Rightarrow> (Inl e, w2)
         | Returned err \<Rightarrow>
             (let w3 = (if err \<noteq> None then emit ConsoleError w2 else w2);
                  w4 = emit ProviderGetSession w3
              in case r2 of
                   Threw e \<Rightarrow> (Inl e, w4)
                 | Returned resp \<Rightarrow>
                     (case data_session resp of
                        Some sess \<Rightarrow>
                          (let w5 = emit ProviderSignOut (emit ConsoleWarn (emit ConsoleWarn w4))
                           in case r3 of
                                Threw e \<Rightarrow> (Inl e, w5)
                              | Returned _ \<Rightarrow> (Inr (), set_store loggedOutState w5))
                      | None \<Rightarrow>
                          (let w5 = (if dev then emit ConsoleLog (emit ConsoleLog w4) else w4)
                           in (Inr (), set_store loggedOutState w5)))))"

text \<open>The whole orchestrator: the \<^verbatim>\<open>catch\<close> block logs, writes the store and returns.\<close>

definition signOutAtom ::
  "bool \<Rightarrow> AuthError option outcome \<Rightarrow> SessionResponse outcome \<Rightarrow> AuthError option outcome
     \<Rightarrow> world \<Rightarrow> (thrown + unit) \<times> world" where
  "signOutAtom dev r1 r2 r3 w =
     (case signOut_try dev r1 r2 r3 w of
        (Inr u, w') \<Rightarrow> (Inr u, w')
      | (Inl e, w') \<Rightarrow> (Inr (), set_store loggedOutState (emit ConsoleError w')))"

section \<open>The provider component: initial lookup and session events\<close>

datatype AuthChangeEvent =
  SIGNED_IN | SIGNED_OUT | TOKEN_REFRESHED | USER_UPDATED | OtherEvent string

text \<open>\<^verbatim>\<open>session?.user\<close>.\<close>

definition session_user_of :: "Session option \<Rightarrow> SupabaseUser option" where
  "session_user_of sess = (case sess of None \<Rightarrow> None | Some x \<Rightarrow> session_user x)"

text \<open>
  The \<^verbatim>\<open>try\<close>/\<^verbatim>\<open>catch\<close> of the \<^verbatim>\<open>onAuthStateChange\<close> callback, that is the callback
  after its guard. Its \<^verbatim>\<open>catch\<close> block runs \<^verbatim>\<open>setLoading(false)\<close>.
\<close>

definition handleEvent :: "AuthChangeEvent \<Rightarrow> Session option \<Rightarrow> AuthState \<Rightarrow> AuthState" where
  "handleEvent event sess s =
     (if event = SIGNED_IN \<or> event = TOKEN_REFRESHED then
        (case session_user_of sess of
           None \<Rightarrow> s
         | Some su \<Rightarrow>
             (case toUser su of
                Inl e \<Rightarrow> setLoadingAtom False s
              | Inr u \<Rightarrow> setAuthStateAtom (signedInState (Some u)) s))
      else if event = SIGNED_OUT then setAuthStateAtom loggedOutState s
      else if event = USER_UPDATED \<and> session_user_of sess \<noteq> None then
        (case session_user_of sess of
           None \<Rightarrow> s
         | Some su \<Rightarrow>
             (case toUser su of
                Inl e \<Rightarrow> setLoadingAtom False s
              | Inr u \<Rightarrow> setAuthStateAtom (signedInState (Some u)) s))
      else s)"

text \<open>
  The component's state: the store, \<^verbatim>\<open>initializingRef.current\<close> and the effect's
  \<^verbatim>\<open>isMounted\<close> variable.
\<close>

record Synchronizer =
  sync_store :: AuthState
  initializingRef :: bool
  isMounted :: bool

definition onAuthStateChange ::
  "AuthChangeEvent \<Rightarrow> Session option \<Rightarrow> Synchronizer \<Rightarrow> Synchronizer" where
  "onAuthStateChange event sess y =
     (if \<not> isMounted y \<or> initializingRef y then y
      else y\<lparr>sync_store := handleEvent event sess (sync_store y)\<rparr>)"

text \<open>
  \<^verbatim>\<open>initialize\<close> up to the await inside \<^verbatim>\<open>initializeAuth()\<close>, and from there on
  (the rest of \<^verbatim>\<open>initializeAuthAtom\<close>, then the \<^verbatim>\<open>finally\<close> block).
\<close>

definition initialize_start :: "Synchronizer \<Rightarrow> Synchronizer" where
  "initialize_start y =
     (if initializingRef y then y
      else y\<lparr>initializingRef := True, sync_store := setLoadingAtom True (sync_store y)\<rparr>)"

definition initialize_finish :: "SessionResponse outcome \<Rightarrow> Synchronizer \<Rightarrow> Synchronizer" where
  "initialize_finish r y =
     (let y' = y\<lparr>sync_store := initializeAuth_resume r (sync_store y)\<rparr>
      in if isMounted y' then y'\<lparr>initializingRef := False\<rparr> else y')"

fun deliver :: "(AuthChangeEvent \<times> Session option) list \<Rightarrow> Synchronizer \<Rightarrow> Synchronizer" where
  "deliver [] y = y"
| "deliver ((event, sess) # rest) y = deliver rest (onAuthStateChange event sess y)"

text \<open>
  A run of \<^verbatim>\<open>initialize\<close> during which the provider emits the events \<open>mid\<close> before
  the lookup resolves with \<open>r\<close>. A call that finds the flag set returns at once.
\<close>

definition initialize ::
  "SessionResponse outcome \<Rightarrow> (AuthChangeEvent \<times> Session option) list \<Rightarrow> Synchronizer
     \<Rightarrow> Synchronizer" where
  "initialize r mid y =
     (if initializingRef y then deliver mid y
      else initialize_finish r (deliver mid (initialize_start y)))"

section \<open>The store's transitions, one write at a time\<close>

text \<open>
  Every write to the store that the orchestrators and the event callback perform, as a
  step. An asynchronous operation is two steps, the write before its await and the write
  after it, so a sequence of steps covers the operations run one after the other as well
  as every interleaving at the awaits.
\<close>

datatype step =
    InitStart
  | InitResume "SessionResponse outcome"
  | SignUpStart
  | SignUpResume "AuthTokenResponse outcome"
  | SignInStart
  | SignInResume "AuthTokenResponse outcome"
  | SignOutStart
  | SignOutEnd
  | SetLoading bool
  | ClearError
  | ProviderEvent AuthChangeEvent "Session option"

fun apply_step :: "step \<Rightarrow> AuthState \<Rightarrow> AuthState" where
  "apply_step InitStart s = setLoadingAtom True s"
| "apply_step (InitResume r) s = initializeAuth_resume r s"
| "apply_step SignUpStart s = setLoadingAtom True s"
| "apply_step (SignUpResume r) s = snd (signUp_resume r s)"
| "apply_step SignInStart s = setLoadingAtom True s"
| "apply_step (SignInResume r) s = snd (signIn_resume r s)"
| "apply_step SignOutStart s = s\<lparr>loggingOut := True\<rparr>"
| "apply_step SignOutEnd s = loggedOutState"
| "apply_step (SetLoading l) s = setLoadingAtom l s"
| "apply_step ClearError s = clearErrorAtom s"
| "apply_step (ProviderEvent event sess) s = handleEvent event sess s"

fun run :: "step list \<Rightarrow> AuthState \<Rightarrow> AuthState" where
  "run [] s = s"
| "run (st # rest) s = run rest (apply_step st s)"

section \<open>The request interceptor\<close>

text \<open>\<^verbatim>\<open>session?.access_token\<close>.\<close>

definition session_access_token :: "Session option \<Rightarrow> string option" where
  "session_access_token sess = (case sess of None \<Rightarrow> None | Some x \<Rightarrow> Some (access_token x))"

text \<open>
  The \<^verbatim>\<open>headers()\<close> callback of \<^verbatim>\<open>httpBatchLink\<close>. It reads the store, and in two of
  its three branches awaits \<^verbatim>\<open>supabase.auth.getSession()\<close>, whose outcome is \<open>r\<close>. The
  result is the header object (a list of name and value) or the thrown value of a
  rejected lookup, with the provider calls and console lines on the way.
\<close>

type_synonym headers = "(string \<times> string) list"

definition headers ::
  "bool \<Rightarrow> AuthState \<Rightarrow> SessionResponse outcome \<Rightarrow> (thrown + headers) \<times> effect list" where
  "headers dev authState r =
     (if isAuthenticated authState then
        (let log1 = (if dev then [ConsoleLog] else []) @ [ProviderGetSession]
         in case r of
              Threw e \<Rightarrow> (Inl e, log1)
            | Returned resp \<Rightarrow>
                (let no_token = (Inr [], log1 @ (if dev then [ConsoleWarn] else []))
                 in case session_access_token (data_session resp) of
                      None \<Rightarrow> no_token
                    | Some token \<Rightarrow>
                        if token = [] then no_token
                        else (Inr [(''authorization'', ''Bearer '' @ token)], log1)))
      else if loading authState then
        (let log1 = (if dev then [ConsoleLog] else []) @ [ProviderGetSession]
         in case r of
              Threw e \<Rightarrow> (Inl e, log1)
            | Returned resp \<Rightarrow>
                (case session_access_token (data_session resp) of
                   None \<Rightarrow> (Inr [], log1)
                 | Some token \<Rightarrow>
                     if token = [] then (Inr [], log1)
                     else (Inr [(''authorization'', ''Bearer '' @ token)],
                           log1 @ (if dev then [ConsoleLog] else []))))
      else (Inr [], if dev then [ConsoleLog] else []))"

section \<open>The error link\<close>

text \<open>
  The browser as the error link sees it: \<^verbatim>\<open>window.location.href\<close>, or \<open>None\<close> where
  \<^verbatim>\<open>typeof window === 'undefined'\<close>, and what the link has done so far.
\<close>

record browser =
  location_href :: "string option"
  done_so_far :: "effect list"

definition browser_emit :: "effect \<Rightarrow> browser \<Rightarrow> browser" where
  "browser_emit e b = b\<lparr>done_so_far := done_so_far b @ [e]\<rparr>"

text \<open>The \<^verbatim>\<open>error\<close> callback that \<^verbatim>\<open>errorLink\<close> subscribes with, for one failed call.\<close>

definition errorLink_error :: "bool \<Rightarrow> rpc_error \<Rightarrow> browser \<Rightarrow> browser" where
  "errorLink_error dev err b =
     (let b1 = (if dev then browser_emit ConsoleLog (browser_emit ConsoleLog (browser_emit ConsoleLog b)) else b);
          b2 = (if is_TRPCClientError err \<and> data_code err = Some ''UNAUTHORIZED'' then
                  (let b' = (if dev then browser_emit ConsoleLog b1 else b1)
                   in if location_href b' \<noteq> None
                      then browser_emit (SetLocationHref ''/'') (b'\<lparr>location_href := Some ''/''\<rparr>)
                      else b')
                else b1)
      in browser_emit (ObserverError err) b2)"

text \<open>Several calls failing one after the other in the same tick.\<close>

fun errorLink_errors :: "bool \<Rightarrow> rpc_error list \<Rightarrow> browser \<Rightarrow> browser" where
  "errorLink_errors dev [] b = b"
| "errorLink_errors dev (err # errs) b = errorLink_errors dev errs (errorLink_error dev err b)"

definition redirects :: "browser \<Rightarrow> nat" where
  "redirects b = length (filter (\<lambda>e. case e of SetLocationHref _ \<Rightarrow> True | _ \<Rightarrow> False) (done_so_far b))"

definition passed_on :: "browser \<Rightarrow> rpc_error list" where
  "passed_on b = concat (map (\<lambda>e. case e of ObserverError x \<Rightarrow> [x] | _ \<Rightarrow> []) (done_so_far b))"

definition unauthorized :: "rpc_error \<Rightarrow> bool" where
  "unauthorized err \<longleftrightarrow> is_TRPCClientError err \<and> data_code err = Some ''UNAUTHORIZED''"

section \<open>The server context\<close>

record Context =
  ctx_user :: "User option"
  date :: nat

text \<open>
  \<^verbatim>\<open>createContext\<close>: \<open>authorization\<close> is \<^verbatim>\<open>req.headers.authorization\<close>, \<open>getUser\<close> is what
  \<^verbatim>\<open>supabaseAdmin.auth.getUser\<close> does with a token, \<open>now\<close> is the clock.
\<close>

definition createContext ::
  "string option \<Rightarrow> (string \<Rightarrow> UserResponse outcome) \<Rightarrow> nat \<Rightarrow> Context" where
  "createContext authorization getUser now =
     \<lparr>ctx_user =
        (case authorization of
           None \<Rightarrow> None
         | Some authHeader \<Rightarrow>
             (if authHeader \<noteq> [] \<and> prefix ''Bearer '' authHeader then
                (let token = drop 7 authHeader
                 in case getUser token of
                      Threw e \<Rightarrow> None
                    | Returned resp \<Rightarrow>
                        (case (user_error resp, verified_user resp) of
                           (None, Some supabaseUser) \<Rightarrow>
                             (case toUser supabaseUser of Inl e \<Rightarrow> None | Inr u \<Rightarrow> Some u)
                         | _ \<Rightarrow> None))
              else None)),
      date = now\<rparr>"

datatype TRPCError = UNAUTHORIZED

text \<open>
  Modelled from the spec: the procedure builders of \<^verbatim>\<open>src/server/trpc.ts\<close>, which the
  routers import and which is not among the sources. The specification says that a
  protected operation fails with an \<^verbatim>\<open>UNAUTHORIZED\<close> condition whenever the context's user
  is null and that a public operation runs regardless; the repository's architecture guide
  shows the same check, \<^verbatim>\<open>if (!ctx.user) throw new TRPCError({ code: 'UNAUTHORIZED' })\<close>.
\<close>

definition protectedProcedure :: "(Context \<Rightarrow> 'r) \<Rightarrow> Context \<Rightarrow> TRPCError + 'r" where
  "protectedProcedure resolver ctx =
     (if ctx_user ctx = None then Inl UNAUTHORIZED else Inr (resolver ctx))"

text \<open>
  Modelled from the spec: the public procedure builder of the same missing file; a public
  operation runs whatever the context's user is.
\<close>

definition publicProcedure :: "(Context \<Rightarrow> 'r) \<Rightarrow> Context \<Rightarrow> TRPCError + 'r" where
  "publicProcedure resolver ctx = Inr (resolver ctx)"

text \<open>Two procedures of \<^verbatim>\<open>exampleRouter\<close>: the protected \<^verbatim>\<open>getUser\<close>, the public \<^verbatim>\<open>getAll\<close>.\<close>

definition getUser :: "Context \<Rightarrow> TRPCError + User option" where
  "getUser = protectedProcedure (\<lambda>ctx. ctx_user ctx)"

definition getAll :: "Context \<Rightarrow> TRPCError + (nat \<times> string) list" where
  "getAll = publicProcedure (\<lambda>ctx. [(1, ''First post''), (2, ''Second post'')])"

section \<open>Reading the effects\<close>

text \<open>The store values written, in order.\<close>

definition store_writes :: "effect list \<Rightarrow> AuthState list" where
  "store_writes es = concat (map (\<lambda>e. case e of StoreSet s \<Rightarrow> [s] | _ \<Rightarrow> []) es)"

text \<open>The invariant of the data model: an authenticated store names its user.\<close>

definition inv_user :: "AuthState \<Rightarrow> bool" where
  "inv_user s \<longleftrightarrow> (isAuthenticated s \<longrightarrow> user s \<noteq> None)"

text \<open>A loading store shows no error.\<close>

definition inv_loading :: "AuthState \<Rightarrow> bool" where
  "inv_loading s \<longleftrightarrow> (loading s \<longrightarrow> error s = None)"

text \<open>What a sign-out run from store \<open>s\<close> does, from its first effect to its last.\<close>

definition signOut_effects ::
  "bool \<Rightarrow> AuthError option outcome \<Rightarrow> SessionResponse outcome \<Rightarrow> AuthError option outcome
     \<Rightarrow> AuthState \<Rightarrow> effect list" where
  "signOut_effects dev r1 r2 r3 s =
     effects (snd (signOutAtom dev r1 r2 r3 \<lparr>store = s, effects = []\<rparr>))"

section \<open>Three token verifiers\<close>

text \<open>
  Provider behaviours for the server context to run against. Each accepts the token
  \<^verbatim>\<open>tok\<close> and rejects every other token with an error. The first verifies it as a user
  with an email address, the second as a user that has neither an email address nor a
  display name (a user of an anonymous or phone sign-in), the third as a user with a
  display name and no email address.
\<close>

definition verifier_of_alice :: "string \<Rightarrow> UserResponse outcome" where
  "verifier_of_alice token =
     (if token = ''tok''
      then Returned (UserResponse (Some (SupabaseUser ''u1'' (Some ''alice@example.com'') None)) None)
      else Returned (UserResponse None (Some (AuthError ''invalid JWT''))))"


definition verifier_of_named :: "string \<Rightarrow> UserResponse outcome" where
  "verifier_of_named token =
     (if token = ''tok''
      then Returned (UserResponse (Some (SupabaseUser ''u1'' None (Some ''Bob''))) None)
      else Returned (UserResponse None (Some (AuthError ''invalid JWT''))))"

section \<open>Sign-out always ends logged out\<close>

text \<open>
  Claim C3. Whatever the provider does (the first sign-out succeeds, returns an error or
  throws, the verification lookup throws, the retry throws), \<^verbatim>\<open>signOutAtom\<close> returns
  normally, the store it leaves is the logged-out snapshot, and it wrote the store exactly
  twice: first the current state with \<^verbatim>\<open>loggingOut\<close> set, last the logged-out snapshot, in
  which \<^verbatim>\<open>loggingOut\<close> is false again.
\<close>

theorem signOut_always_logged_out:
  "fst (signOutAtom dev r1 r2 r3 w) = Inr ()
   \<and> store (snd (signOutAtom dev r1 r2 r3 w)) =
       \<lparr>isAuthenticated = False, user = None, loading = False, error = None, loggingOut = False\<rparr>
   \<and> store_writes (effects (snd (signOutAtom dev r1 r2 r3 w))) =
       store_writes (effects w) @
         [(store w)\<lparr>loggingOut := True\<rparr>,
          \<lparr>isAuthenticated = False, user = None, loading = False, error = None, loggingOut = False\<rparr>]"
  by (auto simp: signOutAtom_def signOut_try_def Let_def set_store_def emit_def
      loggedOutState_def store_writes_def split: outcome.splits option.splits)

text \<open>
  The scenario of a provider whose sign-out call returns an error, run from a signed-in
  store.
\<close>

theorem signOut_always_logged_out_witness:
  "fst (signOutAtom False (Returned (Some (AuthError ''network''))) (Returned (SessionResponse None None))
          (Returned None)
          \<lparr>store = signedInState (Some \<lparr>user_id = ''u1'', email = Some ''a@x.io'', name = Some ''a''\<rparr>),
           effects = []\<rparr>) = Inr ()
   \<and> store (snd (signOutAtom False (Returned (Some (AuthError ''network'')))
          (Returned (SessionResponse None None)) (Returned None)
          \<lparr>store = signedInState (Some \<lparr>user_id = ''u1'', email = Some ''a@x.io'', name = Some ''a''\<rparr>),
           effects = []\<rparr>)) =
       \<lparr>isAuthenticated = False, user = None, loading = False, error = None, loggingOut = False\<rparr>"
  using signOut_always_logged_out [of False "Returned (Some (AuthError ''network''))"
      "Returned (SessionResponse None None)" "Returned None"
      "\<lparr>store = signedInState (Some \<lparr>user_id = ''u1'', email = Some ''a@x.io'', name = Some ''a''\<rparr>),
        effects = []\<rparr>"]
  by simp

section \<open>The interceptor's three-state table\<close>

text \<open>
  Claim C1. A token is present when the provider's answer has a session whose
  \<^verbatim>\<open>access_token\<close> is truthy (a non-empty string). With an authenticated store the
  interceptor asks the provider once and attaches \<^verbatim>\<open>authorization: Bearer <token>\<close> when a
  token is present and returns an empty header object when not. With a store that is not
  authenticated but loading it does the same. With a store that is neither, it does not
  ask the provider and returns an empty header object whatever the provider would have
  answered, a session with a token included.
\<close>

theorem headers_three_state_table:
  "(isAuthenticated s \<longrightarrow>
      count_list (snd (headers dev s (Returned resp))) ProviderGetSession = 1
      \<and> fst (headers dev s (Returned resp)) =
          Inr (case session_access_token (data_session resp) of
                 None \<Rightarrow> []
               | Some token \<Rightarrow> if token = [] then [] else [(''authorization'', ''Bearer '' @ token)]))
   \<and> (\<not> isAuthenticated s \<and> loading s \<longrightarrow>
      count_list (snd (headers dev s (Returned resp))) ProviderGetSession = 1
      \<and> fst (headers dev s (Returned resp)) =
          Inr (case session_access_token (data_session resp) of
                 None \<Rightarrow> []
               | Some token \<Rightarrow> if token = [] then [] else [(''authorization'', ''Bearer '' @ token)]))
   \<and> (\<not> isAuthenticated s \<and> \<not> loading s \<longrightarrow>
      count_list (snd (headers dev s r)) ProviderGetSession = 0
      \<and> fst (headers dev s r) = Inr [])"
proof (intro conjI impI)
  assume "isAuthenticated s"
  then show "count_list (snd (headers dev s (Returned resp))) ProviderGetSession = 1"
    by (simp add: headers_def Let_def split: option.splits)
next
  assume "isAuthenticated s"
  then show "fst (headers dev s (Returned resp)) =
      Inr (case session_access_token (data_session resp) of
             None \<Rightarrow> []
           | Some token \<Rightarrow> if token = [] then [] else [(''authorization'', ''Bearer '' @ token)])"
    by (simp add: headers_def Let_def split: option.splits)
next
  assume "\<not> isAuthenticated s \<and> loading s"
  then show "count_list (snd (headers dev s (Returned resp))) ProviderGetSession = 1"
    by (simp add: headers_def Let_def split: option.splits)
next
  assume "\<not> isAuthenticated s \<and> loading s"
  then show "fst (headers dev s (Returned resp)) =
      Inr (case session_access_token (data_session resp) of
             None \<Rightarrow> []
           | Some token \<Rightarrow> if token = [] then [] else [(''authorization'', ''Bearer '' @ token)])"
    by (simp add: headers_def Let_def split: option.splits)
next
  assume logged_out: "\<not> isAuthenticated s \<and> \<not> loading s"
  then show "count_list (snd (headers dev s r)) ProviderGetSession = 0"
    by (simp add: headers_def)
  from logged_out show "fst (headers dev s r) = Inr []"
    by (simp add: headers_def)
qed

text \<open>
  The three rows at concrete inputs: the initial (loading) store with a provider session,
  a signed-in store whose provider has no session, and the logged-out store whose provider
  still has a session.
\<close>

theorem headers_three_state_table_witness:
  "fst (headers False authStateAtom
          (Returned (SessionResponse (Some (Session ''tok'' None)) None))) =
     Inr [(''authorization'', ''Bearer tok'')]
   \<and> fst (headers False
          (signedInState (Some \<lparr>user_id = ''u1'', email = Some ''a@x.io'', name = Some ''a''\<rparr>))
          (Returned (SessionResponse None None))) = Inr []
   \<and> fst (headers False loggedOutState
          (Returned (SessionResponse (Some (Session ''tok'' None)) None))) = Inr []"
  using headers_three_state_table [of authStateAtom False
      "SessionResponse (Some (Session ''tok'' None)) None"]
    headers_three_state_table [of
      "signedInState (Some \<lparr>user_id = ''u1'', email = Some ''a@x.io'', name = Some ''a''\<rparr>)"
      False "SessionResponse None None"]
    headers_three_state_table [of loggedOutState False _
      "Returned (SessionResponse (Some (Session ''tok'' None)) None)"]
  by (simp add: authStateAtom_def signedInState_def loggedOutState_def session_access_token_def)

text \<open>
  The table is about what the provider answers. When the lookup itself rejects, in the
  two states that ask, \<^verbatim>\<open>headers()\<close> rejects with the same value.
\<close>

lemma headers_lookup_rejected:
  "isAuthenticated s \<or> loading s \<Longrightarrow> fst (headers dev s (Threw e)) = Inl e"
  by (auto simp: headers_def Let_def)

section \<open>An authenticated store names its user\<close>

lemma derive_user_Some: "derive_user du = Inr u \<Longrightarrow> du \<noteq> None \<Longrightarrow> u \<noteq> None"
  by (auto simp: derive_user_def split: option.splits sum.splits)

lemma inv_setLoading: "inv_user s \<Longrightarrow> inv_user (setLoadingAtom l s)"
  by (simp add: inv_user_def setLoadingAtom_def)

lemma inv_initializeAuth_resume: "inv_user (initializeAuth_resume r s)"
  by (simp add: inv_user_def initializeAuth_resume_def initializeAuth_catch_def failedState_def
      loggedOutState_def signedInState_def split: outcome.splits option.splits sum.splits)

lemma inv_signUp_resume: "inv_user s \<Longrightarrow> inv_user (snd (signUp_resume r s))"
  by (auto simp: inv_user_def signUp_resume_def setLoadingAtom_def signedInState_def
      dest: derive_user_Some split: outcome.splits option.splits sum.splits)

lemma inv_signIn_resume: "inv_user s \<Longrightarrow> inv_user (snd (signIn_resume r s))"
  by (auto simp: inv_user_def signIn_resume_def setLoadingAtom_def signedInState_def
      dest: derive_user_Some split: outcome.splits option.splits sum.splits)

lemma inv_handleEvent: "inv_user s \<Longrightarrow> inv_user (handleEvent event sess s)"
  by (auto simp: inv_user_def handleEvent_def setLoadingAtom_def setAuthStateAtom_def
      signedInState_def loggedOutState_def split: option.splits sum.splits)

lemma inv_apply_step: "inv_user s \<Longrightarrow> inv_user (apply_step st s)"
proof (cases st)
  case (InitResume r)
  then show ?thesis by (simp add: inv_initializeAuth_resume)
next
  case SignOutStart
  assume "inv_user s"
  with SignOutStart show ?thesis by (simp add: inv_user_def)
next
  case SignOutEnd
  then show ?thesis by (simp add: inv_user_def loggedOutState_def)
next
  case ClearError
  assume "inv_user s"
  with ClearError show ?thesis by (simp add: inv_user_def clearErrorAtom_def)
qed (simp_all add: inv_setLoading inv_signUp_resume inv_signIn_resume inv_handleEvent)

lemma inv_run: "inv_user s \<Longrightarrow> inv_user (run steps s)"
  by (induction steps arbitrary: s) (simp_all add: inv_apply_step)

text \<open>
  The operations run to completion are sequences of steps, so the steps cover them.
\<close>

lemma initializeAuthAtom_steps: "initializeAuthAtom r s = run [InitStart, InitResume r] s"
  by (simp add: initializeAuthAtom_def)

lemma signUpAtom_steps: "snd (signUpAtom r s) = run [SignUpStart, SignUpResume r] s"
  by (simp add: signUpAtom_def)

lemma signInAtom_steps: "snd (signInAtom r s) = run [SignInStart, SignInResume r] s"
  by (simp add: signInAtom_def)

lemma signOutAtom_steps:
  "store_writes (effects (snd (signOutAtom dev r1 r2 r3 \<lparr>store = s, effects = []\<rparr>))) =
     [run [SignOutStart] s, run [SignOutStart, SignOutEnd] s]"
  by (auto simp: signOutAtom_def signOut_try_def Let_def set_store_def emit_def
      store_writes_def split: outcome.splits option.splits)

lemma onAuthStateChange_steps:
  "sync_store (onAuthStateChange event sess y) = sync_store y
   \<or> sync_store (onAuthStateChange event sess y) = run [ProviderEvent event sess] (sync_store y)"
  by (simp add: onAuthStateChange_def)

text \<open>
  Claim C5. Every state reached from the initial state by any sequence of the store's
  transitions (the writes of initialization, sign-up, sign-in and sign-out, in any
  interleaving, \<^verbatim>\<open>setLoading\<close>, \<^verbatim>\<open>clearError\<close> and the provider-event callback) that has
  \<^verbatim>\<open>isAuthenticated\<close> set has a user.
\<close>

theorem authenticated_has_user:
  "isAuthenticated (run steps authStateAtom) \<longrightarrow> user (run steps authStateAtom) \<noteq> None"
proof -
  have "inv_user authStateAtom" by (simp add: inv_user_def authStateAtom_def)
  then have "inv_user (run steps authStateAtom)" by (rule inv_run)
  then show ?thesis by (simp add: inv_user_def)
qed

text \<open>A start-up lookup that finds a session, then a token refresh: authenticated, with a user.\<close>

theorem authenticated_has_user_witness:
  "isAuthenticated
     (run [InitStart,
           InitResume (Returned (SessionResponse
             (Some (Session ''tok'' (Some (SupabaseUser ''u1'' (Some ''a@x.io'') None)))) None)),
           ProviderEvent TOKEN_REFRESHED
             (Some (Session ''tok2'' (Some (SupabaseUser ''u1'' (Some ''a@x.io'') None))))]
        authStateAtom)
   \<and> user
     (run [InitStart,
           InitResume (Returned (SessionResponse
             (Some (Session ''tok'' (Some (SupabaseUser ''u1'' (Some ''a@x.io'') None)))) None)),
           ProviderEvent TOKEN_REFRESHED
             (Some (Session ''tok2'' (Some (SupabaseUser ''u1'' (Some ''a@x.io'') None))))]
        authStateAtom) \<noteq> None"
proof -
  have "isAuthenticated
     (run [InitStart,
           InitResume (Returned (SessionResponse
             (Some (Session ''tok'' (Some (SupabaseUser ''u1'' (Some ''a@x.io'') None)))) None)),
           ProviderEvent TOKEN_REFRESHED
             (Some (Session ''tok2'' (Some (SupabaseUser ''u1'' (Some ''a@x.io'') None))))]
        authStateAtom)"
    by (simp add: handleEvent_def session_user_of_def toUser_def truthy_def
        setAuthStateAtom_def signedInState_def)
  then show ?thesis
    using authenticated_has_user by blast
qed

section \<open>Events during initialization are dropped\<close>

lemma deliver_while_initializing: "initializingRef y \<Longrightarrow> deliver evs y = y"
  by (induction evs arbitrary: y) (auto simp: onAuthStateChange_def)

text \<open>
  For contrast: with the component mounted and no initialization in flight, the callback
  does apply the event to the store.
\<close>

lemma event_applied_when_idle:
  "isMounted y \<Longrightarrow> \<not> initializingRef y \<Longrightarrow>
     sync_store (onAuthStateChange event sess y) = handleEvent event sess (sync_store y)"
  by (simp add: onAuthStateChange_def)

text \<open>
  Claim C7. While \<^verbatim>\<open>initializingRef.current\<close> is set, the \<^verbatim>\<open>onAuthStateChange\<close> callback
  returns before it touches anything, whatever the event (\<^verbatim>\<open>SIGNED_IN\<close>, \<^verbatim>\<open>SIGNED_OUT\<close>,
  \<^verbatim>\<open>TOKEN_REFRESHED\<close>, \<^verbatim>\<open>USER_UPDATED\<close> or another). \<^verbatim>\<open>initialize\<close> sets the flag before
  its lookup is under way (and, when it is the one to set it, has by then written only
  \<^verbatim>\<open>setLoadingAtom(true)\<close>), so from that point every event, one or many, leaves the flag,
  the store and the rest of the component's state as \<^verbatim>\<open>initialize\<close> left them: the store
  is not written between the start of the lookup and its end. Hence a run of
  \<^verbatim>\<open>initialize\<close> with events arriving before the lookup resolves ends as the run without
  them, and the store it leaves is the one \<^verbatim>\<open>initializeAuthAtom\<close> alone computes.
\<close>

theorem mid_initialization_events_dropped:
  "(initializingRef y \<longrightarrow> onAuthStateChange event sess y = y)
   \<and> initializingRef (initialize_start y)
   \<and> (\<not> initializingRef y \<longrightarrow>
        sync_store (initialize_start y) = setLoadingAtom True (sync_store y))
   \<and> onAuthStateChange event sess (initialize_start y) = initialize_start y
   \<and> deliver mid (initialize_start y) = initialize_start y
   \<and> initialize r mid y = initialize r [] y
   \<and> (\<not> initializingRef y \<longrightarrow>
        sync_store (initialize r mid y) = initializeAuthAtom r (sync_store y))"
proof -
  have a: "initializingRef y \<longrightarrow> onAuthStateChange event sess y = y"
    by (simp add: onAuthStateChange_def)
  have s: "initializingRef (initialize_start y)"
    by (simp add: initialize_start_def)
  have w: "\<not> initializingRef y \<longrightarrow>
        sync_store (initialize_start y) = setLoadingAtom True (sync_store y)"
    by (simp add: initialize_start_def)
  have one: "onAuthStateChange event sess (initialize_start y) = initialize_start y"
    using s by (simp add: onAuthStateChange_def)
  have many: "deliver mid (initialize_start y) = initialize_start y"
    using s by (rule deliver_while_initializing)
  have b: "initialize r mid y = initialize r [] y"
    by (simp add: initialize_def many deliver_while_initializing)
  have c: "\<not> initializingRef y \<longrightarrow>
        sync_store (initialize r mid y) = initializeAuthAtom r (sync_store y)"
    unfolding b
    by (simp add: initialize_def initialize_finish_def initialize_start_def Let_def
        initializeAuthAtom_def)
  from a s w one many b c show ?thesis by blast
qed

text \<open>
  A signed-in, mounted component. With no initialization in flight a \<^verbatim>\<open>SIGNED_OUT\<close>
  event logs the store out. Once \<^verbatim>\<open>initialize\<close> has started, the same event changes
  nothing: the store is still the signed-in one, now loading. And a run of \<^verbatim>\<open>initialize\<close>
  from the initial store with that event arriving mid-lookup ends with the lookup's
  session in the store.
\<close>

theorem mid_initialization_events_dropped_witness:
  "sync_store (onAuthStateChange SIGNED_OUT None
     \<lparr>sync_store = signedInState (Some \<lparr>user_id = ''u1'', email = Some ''a@x.io'', name = Some ''a''\<rparr>),
      initializingRef = False, isMounted = True\<rparr>) = loggedOutState
   \<and> deliver [(SIGNED_OUT, None)] (initialize_start
     \<lparr>sync_store = signedInState (Some \<lparr>user_id = ''u1'', email = Some ''a@x.io'', name = Some ''a''\<rparr>),
      initializingRef = False, isMounted = True\<rparr>) =
     \<lparr>sync_store =
        \<lparr>isAuthenticated = True,
         user = Some \<lparr>user_id = ''u1'', email = Some ''a@x.io'', name = Some ''a''\<rparr>,
         loading = True, error = None, loggingOut = False\<rparr>,
      initializingRef = True, isMounted = True\<rparr>
   \<and> sync_store (initialize
        (Returned (SessionResponse
           (Some (Session ''tok'' (Some (SupabaseUser ''u1'' (Some ''a@x.io'') None)))) None))
        [(SIGNED_OUT, None)]
        \<lparr>sync_store = authStateAtom, initializingRef = False, isMounted = True\<rparr>) =
      signedInState (Some \<lparr>user_id = ''u1'', email = Some ''a@x.io'', name = Some ''a''\<rparr>)"
proof -
  have e: "initializeAuthAtom
       (Returned (SessionResponse
          (Some (Session ''tok'' (Some (SupabaseUser ''u1'' (Some ''a@x.io'') None)))) None))
       authStateAtom =
     signedInState (Some \<lparr>user_id = ''u1'', email = Some ''a@x.io'', name = Some ''a''\<rparr>)"
    by (simp add: initializeAuthAtom_def initializeAuth_resume_def toUser_def truthy_def
        local_part_def)
  have 0: "sync_store (onAuthStateChange SIGNED_OUT None
     \<lparr>sync_store = signedInState (Some \<lparr>user_id = ''u1'', email = Some ''a@x.io'', name = Some ''a''\<rparr>),
      initializingRef = False, isMounted = True\<rparr>) = loggedOutState"
    by (simp add: onAuthStateChange_def handleEvent_def setAuthStateAtom_def)
  have st: "initialize_start
     \<lparr>sync_store = signedInState (Some \<lparr>user_id = ''u1'', email = Some ''a@x.io'', name = Some ''a''\<rparr>),
      initializingRef = False, isMounted = True\<rparr> =
     \<lparr>sync_store =
        \<lparr>isAuthenticated = True,
         user = Some \<lparr>user_id = ''u1'', email = Some ''a@x.io'', name = Some ''a''\<rparr>,
         loading = True, error = None, loggingOut = False\<rparr>,
      initializingRef = True, isMounted = True\<rparr>"
    by (simp add: initialize_start_def setLoadingAtom_def signedInState_def)
  have 1: "deliver [(SIGNED_OUT, None)] (initialize_start
     \<lparr>sync_store = signedInState (Some \<lparr>user_id = ''u1'', email = Some ''a@x.io'', name = Some ''a''\<rparr>),
      initializingRef = False, isMounted = True\<rparr>) =
     initialize_start
     \<lparr>sync_store = signedInState (Some \<lparr>user_id = ''u1'', email = Some ''a@x.io'', name = Some ''a''\<rparr>),
      initializingRef = False, isMounted = True\<rparr>"
    using mid_initialization_events_dropped [where
      y = "\<lparr>sync_store = signedInState (Some \<lparr>user_id = ''u1'', email = Some ''a@x.io'', name = Some ''a''\<rparr>),
            initializingRef = False, isMounted = True\<rparr>"
      and mid = "[(SIGNED_OUT, None)]"]
    by blast
  have 2: "sync_store (initialize
        (Returned (SessionResponse
           (Some (Session ''tok'' (Some (SupabaseUser ''u1'' (Some ''a@x.io'') None)))) None))
        [(SIGNED_OUT, None)]
        \<lparr>sync_store = authStateAtom, initializingRef = False, isMounted = True\<rparr>) =
      initializeAuthAtom
       (Returned (SessionResponse
          (Some (Session ''tok'' (Some (SupabaseUser ''u1'' (Some ''a@x.io'') None)))) None))
       authStateAtom"
    using mid_initialization_events_dropped [where
      y = "\<lparr>sync_store = authStateAtom, initializingRef = False, isMounted = True\<rparr>"
      and r = "Returned (SessionResponse
           (Some (Session ''tok'' (Some (SupabaseUser ''u1'' (Some ''a@x.io'') None)))) None)"
      and mid = "[(SIGNED_OUT, None)]", THEN conjunct2, THEN conjunct2, THEN conjunct2,
      THEN conjunct2, THEN conjunct2, THEN conjunct2]
    by simp
  from 0 1 2 e st show ?thesis by simp
qed

section \<open>Entering loading clears the error\<close>

lemma loading_initializeAuth_resume: "\<not> loading (initializeAuth_resume r s)"
  by (simp add: initializeAuth_resume_def initializeAuth_catch_def failedState_def
      loggedOutState_def signedInState_def split: outcome.splits option.splits sum.splits)

lemma loading_signUp_resume: "\<not> loading (snd (signUp_resume r s))"
  by (simp add: signUp_resume_def setLoadingAtom_def signedInState_def
      split: outcome.splits option.splits sum.splits)

lemma loading_signIn_resume: "\<not> loading (snd (signIn_resume r s))"
  by (simp add: signIn_resume_def setLoadingAtom_def signedInState_def
      split: outcome.splits option.splits sum.splits)

lemma loading_handleEvent:
  "handleEvent event sess s = s \<or> \<not> loading (handleEvent event sess s)"
  by (simp add: handleEvent_def setLoadingAtom_def setAuthStateAtom_def signedInState_def
      loggedOutState_def split: option.splits sum.splits)

lemma invl_apply_step: "inv_loading s \<Longrightarrow> inv_loading (apply_step st s)"
proof (cases st)
  case (ProviderEvent event sess)
  assume "inv_loading s"
  with ProviderEvent loading_handleEvent [of event sess s] show ?thesis
    by (auto simp: inv_loading_def)
next
  case SignOutStart
  assume "inv_loading s"
  with SignOutStart show ?thesis by (simp add: inv_loading_def)
qed (simp_all add: setLoadingAtom_def loading_initializeAuth_resume loading_signUp_resume
      loading_signIn_resume inv_loading_def loggedOutState_def clearErrorAtom_def)

lemma invl_run: "inv_loading s \<Longrightarrow> inv_loading (run steps s)"
  by (induction steps arbitrary: s) (simp_all add: invl_apply_step)

lemma entering_loading: "\<not> loading s \<Longrightarrow> loading (apply_step st s) \<Longrightarrow> error (apply_step st s) = None"
proof (cases st)
  case (ProviderEvent event sess)
  assume "\<not> loading s" "loading (apply_step st s)"
  with ProviderEvent loading_handleEvent [of event sess s] show ?thesis by auto
qed (simp_all add: setLoadingAtom_def loading_initializeAuth_resume loading_signUp_resume
      loading_signIn_resume loggedOutState_def clearErrorAtom_def)

text \<open>
  Claim C8. \<^verbatim>\<open>setLoadingAtom(true)\<close> sets \<^verbatim>\<open>loading\<close> and clears \<^verbatim>\<open>error\<close> in its one
  write; every transition that turns \<^verbatim>\<open>loading\<close> from false to true leaves \<^verbatim>\<open>error\<close>
  null; and no state reached from the initial one by the store's transitions has
  \<^verbatim>\<open>loading\<close> set together with an error. (\<^verbatim>\<open>setAuthStateAtom\<close> stores the snapshot it is
  given; its only caller, the event callback, passes snapshots with \<^verbatim>\<open>loading: false\<close>,
  and those calls are the \<open>ProviderEvent\<close> steps.)
\<close>

theorem loading_clears_error:
  "loading (setLoadingAtom True s) \<and> error (setLoadingAtom True s) = None
   \<and> (\<not> loading s \<and> loading (apply_step st s) \<longrightarrow> error (apply_step st s) = None)
   \<and> (loading (run steps authStateAtom) \<longrightarrow> error (run steps authStateAtom) = None)"
proof -
  have "inv_loading authStateAtom" by (simp add: inv_loading_def authStateAtom_def)
  then have "inv_loading (run steps authStateAtom)" by (rule invl_run)
  then have "loading (run steps authStateAtom) \<longrightarrow> error (run steps authStateAtom) = None"
    by (simp add: inv_loading_def)
  moreover have "loading (setLoadingAtom True s) \<and> error (setLoadingAtom True s) = None"
    by (simp add: setLoadingAtom_def)
  ultimately show ?thesis using entering_loading [of s st] by blast
qed

text \<open>
  A failed start-up lookup leaves an error; the sign-in that follows enters loading and
  clears it.
\<close>

theorem loading_clears_error_witness:
  "\<not> loading (failedState ''Failed to fetch'')
   \<and> loading (apply_step SignInStart (failedState ''Failed to fetch''))
   \<and> error (apply_step SignInStart (failedState ''Failed to fetch'')) = None
   \<and> loading (run [InitStart, InitResume (Threw (Thrown (Some ''Failed to fetch''))), SignInStart]
        authStateAtom)
   \<and> error (run [InitStart, InitResume (Threw (Thrown (Some ''Failed to fetch''))), SignInStart]
        authStateAtom) = None"
proof -
  have 1: "\<not> loading (failedState ''Failed to fetch'')"
    by (simp add: failedState_def)
  have 2: "loading (apply_step SignInStart (failedState ''Failed to fetch''))"
    by (simp add: setLoadingAtom_def)
  have 3: "loading (run [InitStart, InitResume (Threw (Thrown (Some ''Failed to fetch''))), SignInStart]
        authStateAtom)"
    by (simp add: setLoadingAtom_def)
  from 1 2 3 show ?thesis
    using loading_clears_error [of "failedState ''Failed to fetch''" SignInStart
        "[InitStart, InitResume (Threw (Thrown (Some ''Failed to fetch''))), SignInStart]"]
    by blast
qed

section \<open>Redirects of the error link\<close>

lemma redirects_errorLink_error:
  "redirects (errorLink_error dev err b) =
     redirects b + (if unauthorized err \<and> location_href b \<noteq> None then 1 else 0)"
  by (simp add: errorLink_error_def redirects_def browser_emit_def unauthorized_def Let_def)

lemma location_errorLink_error:
  "location_href (errorLink_error dev err b) =
     (if unauthorized err \<and> location_href b \<noteq> None then Some ''/'' else location_href b)"
  by (simp add: errorLink_error_def browser_emit_def unauthorized_def Let_def)

lemma passed_on_errorLink_error: "passed_on (errorLink_error dev err b) = passed_on b @ [err]"
  by (simp add: errorLink_error_def passed_on_def browser_emit_def Let_def)

lemma redirects_errorLink_errors:
  "redirects (errorLink_errors dev errs b) =
     redirects b + (if location_href b \<noteq> None then length (filter unauthorized errs) else 0)"
  by (induction errs arbitrary: b)
     (auto simp: redirects_errorLink_error location_errorLink_error)

lemma location_errorLink_errors:
  "location_href (errorLink_errors dev errs b) =
     (if (\<exists>e \<in> set errs. unauthorized e) \<and> location_href b \<noteq> None then Some ''/''
      else location_href b)"
  by (induction errs arbitrary: b) (auto simp: location_errorLink_error)

lemma passed_on_errorLink_errors: "passed_on (errorLink_errors dev errs b) = passed_on b @ errs"
  by (induction errs arbitrary: b) (simp_all add: passed_on_errorLink_error)

text \<open>
  Two calls that fail with \<^verbatim>\<open>UNAUTHORIZED\<close> in the same tick: the link assigns
  \<^verbatim>\<open>window.location.href\<close> twice, not once. Nothing in \<^verbatim>\<open>errorLink\<close> remembers that a
  redirect has been started.
\<close>

theorem one_redirect_per_unauthorized_error_counterexample:
  "redirects (errorLink_errors False
      [RpcError True (Some ''UNAUTHORIZED'') 0, RpcError True (Some ''UNAUTHORIZED'') 1]
      \<lparr>location_href = Some ''/katamari'', done_so_far = []\<rparr>) = 2
   \<and> redirects (errorLink_errors False
      [RpcError True (Some ''UNAUTHORIZED'') 0, RpcError True (Some ''UNAUTHORIZED'') 1]
      \<lparr>location_href = Some ''/katamari'', done_so_far = []\<rparr>) \<noteq> 1"
  by (simp add: redirects_def errorLink_error_def browser_emit_def Let_def)

text \<open>
  Claim C4, amended. In a browser, the link assigns \<^verbatim>\<open>window.location.href = '/'\<close> once
  for every failure that is a \<^verbatim>\<open>TRPCClientError\<close> with code \<^verbatim>\<open>UNAUTHORIZED\<close>: N such
  failures make N assignments, all of the same target, so the location ends at \<^verbatim>\<open>/\<close>
  (one failure makes exactly one). Failures with any other code make no assignment and
  leave the location alone. Every error, of either kind, is handed on to the caller
  unchanged and in order.
\<close>

theorem one_redirect_per_unauthorized_error:
  "(location_href b \<noteq> None \<longrightarrow>
      redirects (errorLink_errors dev errs b) = redirects b + length (filter unauthorized errs))
   \<and> (location_href b \<noteq> None \<and> (\<exists>e \<in> set errs. unauthorized e) \<longrightarrow>
      location_href (errorLink_errors dev errs b) = Some ''/'')
   \<and> ((\<forall>e \<in> set errs. \<not> unauthorized e) \<longrightarrow>
      redirects (errorLink_errors dev errs b) = redirects b
      \<and> location_href (errorLink_errors dev errs b) = location_href b)
   \<and> passed_on (errorLink_errors dev errs b) = passed_on b @ errs"
  by (auto simp: redirects_errorLink_errors location_errorLink_errors passed_on_errorLink_errors
      filter_empty_conv[THEN iffD2])

text \<open>One unauthorized failure, and one failure with another code.\<close>

theorem one_redirect_per_unauthorized_error_witness:
  "redirects (errorLink_errors False [RpcError True (Some ''UNAUTHORIZED'') 0]
      \<lparr>location_href = Some ''/katamari'', done_so_far = []\<rparr>) = 1
   \<and> location_href (errorLink_errors False [RpcError True (Some ''UNAUTHORIZED'') 0]
      \<lparr>location_href = Some ''/katamari'', done_so_far = []\<rparr>) = Some ''/''
   \<and> redirects (errorLink_errors False [RpcError True (Some ''NOT_FOUND'') 1]
      \<lparr>location_href = Some ''/katamari'', done_so_far = []\<rparr>) = 0
   \<and> passed_on (errorLink_errors False [RpcError True (Some ''NOT_FOUND'') 1]
      \<lparr>location_href = Some ''/katamari'', done_so_far = []\<rparr>) =
      [RpcError True (Some ''NOT_FOUND'') 1]"
  using one_redirect_per_unauthorized_error [of
      "\<lparr>location_href = Some ''/katamari'', done_so_far = []\<rparr>" False
      "[RpcError True (Some ''UNAUTHORIZED'') 0]"]
    one_redirect_per_unauthorized_error [of
      "\<lparr>location_href = Some ''/katamari'', done_so_far = []\<rparr>" False
      "[RpcError True (Some ''NOT_FOUND'') 1]"]
  by (simp add: unauthorized_def redirects_def passed_on_def)

section \<open>A failed start-up lookup\<close>

text \<open>
  A lookup that throws an error whose message is the empty string (\<^verbatim>\<open>new Error()\<close>): the
  store's error is not that message but the fallback text of
  \<^verbatim>\<open>error?.message || 'Authentication initialization failed'\<close>.
\<close>

theorem initialization_failure_surfaces_counterexample:
  "error (initializeAuthAtom (Threw (Thrown (Some ''''))) authStateAtom) =
     Some ''Authentication initialization failed''
   \<and> error (initializeAuthAtom (Threw (Thrown (Some ''''))) authStateAtom) \<noteq> Some ''''"
  by (simp add: initializeAuthAtom_def initializeAuth_resume_def initializeAuth_catch_def
      failedState_def js_or_def)

text \<open>
  Claim C6, amended. When the start-up lookup returns an error, the store becomes the
  logged-out snapshot with \<^verbatim>\<open>error\<close> set to that error's message. When the lookup throws, it
  becomes the same snapshot with \<^verbatim>\<open>error\<close> set to the thrown value's message if that is
  truthy, and to the text \<^verbatim>\<open>Authentication initialization failed\<close> if the thrown value has
  no message or an empty one. In every case, failed or not, initialization ends with
  \<^verbatim>\<open>loading\<close> false.
\<close>

theorem initialization_failure_surfaces:
  "(r = Returned (SessionResponse sess (Some err)) \<longrightarrow>
      initializeAuthAtom r s =
        \<lparr>isAuthenticated = False, user = None, loading = False, error = Some (message err),
         loggingOut = False\<rparr>)
   \<and> (r = Threw (Thrown (Some m)) \<and> m \<noteq> [] \<longrightarrow>
      initializeAuthAtom r s =
        \<lparr>isAuthenticated = False, user = None, loading = False, error = Some m,
         loggingOut = False\<rparr>)
   \<and> (r = Threw (Thrown mo) \<and> \<not> truthy mo \<longrightarrow>
      initializeAuthAtom r s =
        \<lparr>isAuthenticated = False, user = None, loading = False,
         error = Some ''Authentication initialization failed'', loggingOut = False\<rparr>)
   \<and> \<not> loading (initializeAuthAtom r s)"
  by (auto simp: initializeAuthAtom_def initializeAuth_resume_def initializeAuth_catch_def
      failedState_def loggedOutState_def signedInState_def js_or_def truthy_def
      split: outcome.splits option.splits sum.splits)

text \<open>A returned error, a thrown error with a message, a thrown value without one.\<close>

theorem initialization_failure_surfaces_witness:
  "initializeAuthAtom (Returned (SessionResponse None (Some (AuthError ''Failed to fetch''))))
      authStateAtom =
     \<lparr>isAuthenticated = False, user = None, loading = False, error = Some ''Failed to fetch'',
      loggingOut = False\<rparr>
   \<and> initializeAuthAtom (Threw (Thrown (Some ''Network down''))) authStateAtom =
     \<lparr>isAuthenticated = False, user = None, loading = False, error = Some ''Network down'',
      loggingOut = False\<rparr>
   \<and> initializeAuthAtom (Threw (Thrown None)) authStateAtom =
     \<lparr>isAuthenticated = False, user = None, loading = False,
      error = Some ''Authentication initialization failed'', loggingOut = False\<rparr>"
  using initialization_failure_surfaces [of
      "Returned (SessionResponse None (Some (AuthError ''Failed to fetch'')))" None
      "AuthError ''Failed to fetch''" authStateAtom]
    initialization_failure_surfaces [of "Threw (Thrown (Some ''Network down''))" _ _
      authStateAtom "''Network down''"]
    initialization_failure_surfaces [of "Threw (Thrown None)" _ _ authStateAtom _ None]
  by (simp add: truthy_def)

section \<open>The verification step of sign-out\<close>

text \<open>
  A first \<^verbatim>\<open>signOut\<close> call that throws: control goes to the \<^verbatim>\<open>catch\<close> block, and the
  provider session is not looked up at all.
\<close>

theorem signOut_verifies_once_counterexample:
  "count_list
     (signOut_effects False (Threw (Thrown (Some ''Failed to fetch'')))
        (Returned (SessionResponse None None)) (Returned None)
        (signedInState (Some \<lparr>user_id = ''u1'', email = Some ''a@x.io'', name = Some ''a''\<rparr>)))
     ProviderGetSession = 0"
  by (simp add: signOut_effects_def signOutAtom_def signOut_try_def Let_def set_store_def emit_def)

text \<open>
  Claim C9, amended. When the first provider sign-out call returns, with an error or
  without, the orchestration looks the provider session up exactly once. It calls provider
  sign-out a second time exactly when the first call returned and that lookup returned a
  session, and it has logged a warning when it does. Whatever the outcome of the retry, it
  calls sign-out once or twice and looks the session up at most once. When the first call
  throws, there is no lookup and no retry.
\<close>

theorem signOut_verifies_once:
  "(r1 = Returned err \<longrightarrow>
      count_list (signOut_effects dev r1 r2 r3 s) ProviderGetSession = 1)
   \<and> (r1 = Threw e \<longrightarrow>
      count_list (signOut_effects dev r1 r2 r3 s) ProviderGetSession = 0
      \<and> count_list (signOut_effects dev r1 r2 r3 s) ProviderSignOut = 1)
   \<and> (count_list (signOut_effects dev r1 r2 r3 s) ProviderSignOut = 2 \<longleftrightarrow>
        (\<exists>err' resp. r1 = Returned err' \<and> r2 = Returned resp \<and> data_session resp \<noteq> None))
   \<and> (count_list (signOut_effects dev r1 r2 r3 s) ProviderSignOut = 2 \<longrightarrow>
        0 < count_list (signOut_effects dev r1 r2 r3 s) ConsoleWarn)
   \<and> (count_list (signOut_effects dev r1 r2 r3 s) ProviderSignOut = 1
        \<or> count_list (signOut_effects dev r1 r2 r3 s) ProviderSignOut = 2)
   \<and> count_list (signOut_effects dev r1 r2 r3 s) ProviderGetSession \<le> 1"
  by (cases r1; cases r2; cases r3)
     (auto simp: signOut_effects_def signOutAtom_def signOut_try_def Let_def set_store_def emit_def
      split: option.splits)

text \<open>
  A provider that still has a session after the first call (one lookup, one retry, a
  warning), and a first call that throws (one sign-out call).
\<close>

theorem signOut_verifies_once_witness:
  "count_list
     (signOut_effects False (Returned None)
        (Returned (SessionResponse (Some (Session ''tok'' None)) None)) (Returned None)
        loggedOutState) ProviderGetSession = 1
   \<and> count_list
     (signOut_effects False (Returned None)
        (Returned (SessionResponse (Some (Session ''tok'' None)) None)) (Returned None)
        loggedOutState) ProviderSignOut = 2
   \<and> 0 < count_list
     (signOut_effects False (Returned None)
        (Returned (SessionResponse (Some (Session ''tok'' None)) None)) (Returned None)
        loggedOutState) ConsoleWarn
   \<and> count_list
     (signOut_effects False (Threw (Thrown None))
        (Returned (SessionResponse (Some (Session ''tok'' None)) None)) (Returned None)
        loggedOutState) ProviderSignOut = 1"
  using signOut_verifies_once [of "Returned None" None False
      "Returned (SessionResponse (Some (Session ''tok'' None)) None)" "Returned None"
      loggedOutState]
    signOut_verifies_once [of "Threw (Thrown None)" _ False
      "Returned (SessionResponse (Some (Session ''tok'' None)) None)" "Returned None"
      loggedOutState "Thrown None"]
  by auto

section \<open>What sign-up and sign-in report\<close>

lemma toUser_ok:
  "su_email su \<noteq> None \<or> truthy (su_metadata_name su) \<Longrightarrow>
     \<exists>u. toUser su = Inr u \<and> user_id u = su_id su \<and> email u = su_email su"
  by (auto simp: toUser_def)

text \<open>
  Sign-up with confirmation pending writes only \<^verbatim>\<open>setLoadingAtom(false)\<close>, which keeps
  \<^verbatim>\<open>isAuthenticated\<close>: run from a signed-in store it leaves the store authenticated. And a
  provider user with neither display name nor email makes sign-up throw, not return.
\<close>

theorem signUp_signIn_success_counterexample:
  "isAuthenticated (snd (signUpAtom
      (Returned (AuthTokenResponse (Some (SupabaseUser ''u2'' (Some ''b@x.io'') None)) None None))
      (signedInState (Some \<lparr>user_id = ''u1'', email = Some ''a@x.io'', name = Some ''a''\<rparr>))))
   \<and> fst (signUpAtom
      (Returned (AuthTokenResponse (Some (SupabaseUser ''u3'' None None)) None None))
      loggedOutState) = Inl split_of_undefined"
  by (simp add: signUpAtom_def signUp_resume_def derive_user_def toUser_def truthy_def
      setLoadingAtom_def signedInState_def)

text \<open>
  Claim C10, amended. When the provider returns, without an error, a user that has an
  email address or a display name, sign-up returns \<^verbatim>\<open>success: true\<close> whether or not there
  is a session; without a session \<^verbatim>\<open>needsConfirmation\<close> is true and the store is left as it
  was but for \<^verbatim>\<open>loading\<close> false and \<^verbatim>\<open>error\<close> null, so \<^verbatim>\<open>isAuthenticated\<close> is unchanged
  (false when it was false). Sign-in returns \<^verbatim>\<open>success: true\<close> only when the provider
  returned both a user and a session; for the same user without a session it returns
  \<^verbatim>\<open>success: false\<close>.
\<close>

theorem signUp_signIn_success:
  "(r = Returned (AuthTokenResponse (Some su) sess None)
      \<and> (su_email su \<noteq> None \<or> truthy (su_metadata_name su)) \<longrightarrow>
      (\<exists>u. toUser su = Inr u
         \<and> fst (signUpAtom r s) =
             Inr \<lparr>response_user = Some u, needsConfirmation = (sess = None), success = True\<rparr>)
      \<and> (sess = None \<longrightarrow> snd (signUpAtom r s) = s\<lparr>loading := False, error := None\<rparr>))
   \<and> (fst (signInAtom r s) = Inr resp \<and> success resp \<longrightarrow>
        (\<exists>p. r = Returned p \<and> token_error p = None \<and> data_user p \<noteq> None
           \<and> data_token_session p \<noteq> None))
   \<and> (r = Returned (AuthTokenResponse (Some su) None None)
      \<and> (su_email su \<noteq> None \<or> truthy (su_metadata_name su)) \<longrightarrow>
      (\<exists>u. toUser su = Inr u
         \<and> fst (signInAtom r s) =
             Inr \<lparr>response_user = Some u, needsConfirmation = True, success = False\<rparr>))"
proof -
  have up: "r = Returned (AuthTokenResponse (Some su) sess None)
      \<and> (su_email su \<noteq> None \<or> truthy (su_metadata_name su)) \<longrightarrow>
      (\<exists>u. toUser su = Inr u
         \<and> fst (signUpAtom r s) =
             Inr \<lparr>response_user = Some u, needsConfirmation = (sess = None), success = True\<rparr>)
      \<and> (sess = None \<longrightarrow> snd (signUpAtom r s) = s\<lparr>loading := False, error := None\<rparr>)"
  proof (intro impI, elim conjE)
    assume r: "r = Returned (AuthTokenResponse (Some su) sess None)"
      and ok: "su_email su \<noteq> None \<or> truthy (su_metadata_name su)"
    from toUser_ok [OF ok] obtain u where u: "toUser su = Inr u" by blast
    with r show "(\<exists>u. toUser su = Inr u
         \<and> fst (signUpAtom r s) =
             Inr \<lparr>response_user = Some u, needsConfirmation = (sess = None), success = True\<rparr>)
      \<and> (sess = None \<longrightarrow> snd (signUpAtom r s) = s\<lparr>loading := False, error := None\<rparr>)"
      by (simp add: signUpAtom_def signUp_resume_def derive_user_def setLoadingAtom_def)
  qed
  have "in": "fst (signInAtom r s) = Inr resp \<and> success resp \<longrightarrow>
        (\<exists>p. r = Returned p \<and> token_error p = None \<and> data_user p \<noteq> None
           \<and> data_token_session p \<noteq> None)"
    by (cases r)
       (auto simp: signInAtom_def signIn_resume_def
        split: option.splits sum.splits)
  have pending: "r = Returned (AuthTokenResponse (Some su) None None)
      \<and> (su_email su \<noteq> None \<or> truthy (su_metadata_name su)) \<longrightarrow>
      (\<exists>u. toUser su = Inr u
         \<and> fst (signInAtom r s) =
             Inr \<lparr>response_user = Some u, needsConfirmation = True, success = False\<rparr>)"
  proof (intro impI, elim conjE)
    assume r: "r = Returned (AuthTokenResponse (Some su) None None)"
      and ok: "su_email su \<noteq> None \<or> truthy (su_metadata_name su)"
    from toUser_ok [OF ok] obtain u where u: "toUser su = Inr u" by blast
    with r show "\<exists>u. toUser su = Inr u
         \<and> fst (signInAtom r s) =
             Inr \<lparr>response_user = Some u, needsConfirmation = True, success = False\<rparr>"
      by (simp add: signInAtom_def signIn_resume_def derive_user_def)
  qed
  from up "in" pending show ?thesis by blast
qed

text \<open>
  The same provider answer, a user and no session, given to sign-up and to sign-in from
  the initial store; and a sign-in that gets a session.
\<close>

theorem signUp_signIn_success_witness:
  "fst (signUpAtom
      (Returned (AuthTokenResponse (Some (SupabaseUser ''u2'' (Some ''b@x.io'') None)) None None))
      authStateAtom) =
     Inr \<lparr>response_user = Some \<lparr>user_id = ''u2'', email = Some ''b@x.io'', name = Some ''b''\<rparr>,
          needsConfirmation = True, success = True\<rparr>
   \<and> snd (signUpAtom
      (Returned (AuthTokenResponse (Some (SupabaseUser ''u2'' (Some ''b@x.io'') None)) None None))
      authStateAtom) =
     \<lparr>isAuthenticated = False, user = None, loading = False, error = None, loggingOut = False\<rparr>
   \<and> fst (signInAtom
      (Returned (AuthTokenResponse (Some (SupabaseUser ''u2'' (Some ''b@x.io'') None)) None None))
      authStateAtom) =
     Inr \<lparr>response_user = Some \<lparr>user_id = ''u2'', email = Some ''b@x.io'', name = Some ''b''\<rparr>,
          needsConfirmation = True, success = False\<rparr>
   \<and> fst (signInAtom
      (Returned (AuthTokenResponse (Some (SupabaseUser ''u2'' (Some ''b@x.io'') None))
         (Some (Session ''tok'' (Some (SupabaseUser ''u2'' (Some ''b@x.io'') None)))) None))
      authStateAtom) =
     Inr \<lparr>response_user = Some \<lparr>user_id = ''u2'', email = Some ''b@x.io'', name = Some ''b''\<rparr>,
          needsConfirmation = False, success = True\<rparr>"
proof -
  have i: "fst (signInAtom
      (Returned (AuthTokenResponse (Some (SupabaseUser ''u2'' (Some ''b@x.io'') None))
         (Some (Session ''tok'' (Some (SupabaseUser ''u2'' (Some ''b@x.io'') None)))) None))
      authStateAtom) =
     Inr \<lparr>response_user = Some \<lparr>user_id = ''u2'', email = Some ''b@x.io'', name = Some ''b''\<rparr>,
          needsConfirmation = False, success = True\<rparr>"
    by (simp add: signInAtom_def signIn_resume_def derive_user_def toUser_def truthy_def
        local_part_def)
  have t: "toUser (SupabaseUser ''u2'' (Some ''b@x.io'') None) =
      Inr \<lparr>user_id = ''u2'', email = Some ''b@x.io'', name = Some ''b''\<rparr>"
    by (simp add: toUser_def truthy_def local_part_def)
  show ?thesis
    using signUp_signIn_success [of
        "Returned (AuthTokenResponse (Some (SupabaseUser ''u2'' (Some ''b@x.io'') None)) None None)"
        "SupabaseUser ''u2'' (Some ''b@x.io'') None" None authStateAtom] t i
      signUp_signIn_success [of
        "Returned (AuthTokenResponse (Some (SupabaseUser ''u2'' (Some ''b@x.io'') None))
           (Some (Session ''tok'' (Some (SupabaseUser ''u2'' (Some ''b@x.io'') None)))) None)"
        _ _ authStateAtom
        "\<lparr>response_user = Some \<lparr>user_id = ''u2'', email = Some ''b@x.io'', name = Some ''b''\<rparr>,
          needsConfirmation = False, success = True\<rparr>"]
    by (auto simp: authStateAtom_def)
qed

section \<open>The server context and the guard\<close>

text \<open>
  What the context builder and the guard do wherever the user object can be built. With a
  header \<^verbatim>\<open>Bearer <token>\<close>, a provider that verifies the token and a verified user that
  has an email address or a display name, the context's user is the identity derived from
  the verified user (same id, same email). Without a header, or with one that does not
  start with \<^verbatim>\<open>Bearer \<close>, and when verification throws, returns an error or returns no
  user, the context's user is null. A protected procedure fails with \<^verbatim>\<open>UNAUTHORIZED\<close>
  exactly when the context's user is null and runs its resolver otherwise; a public
  procedure runs its resolver regardless.
\<close>

lemma createContext_builds_user:
  "(authorization = Some (''Bearer '' @ token)
      \<and> getUser' token = Returned (UserResponse (Some su) None)
      \<and> (su_email su \<noteq> None \<or> truthy (su_metadata_name su)) \<longrightarrow>
      (\<exists>u. toUser su = Inr u \<and> user_id u = su_id su \<and> email u = su_email su
         \<and> ctx_user (createContext authorization getUser' now) = Some u))
   \<and> (authorization = None \<or> (\<exists>h. authorization = Some h \<and> \<not> prefix ''Bearer '' h) \<longrightarrow>
      ctx_user (createContext authorization getUser' now) = None)
   \<and> (authorization = Some (''Bearer '' @ token)
      \<and> (getUser' token = Threw e
           \<or> (\<exists>p. getUser' token = Returned p \<and> (user_error p \<noteq> None \<or> verified_user p = None)))
      \<longrightarrow> ctx_user (createContext authorization getUser' now) = None)
   \<and> (protectedProcedure resolver ctx = Inl UNAUTHORIZED \<longleftrightarrow> ctx_user ctx = None)
   \<and> (ctx_user ctx \<noteq> None \<longrightarrow> protectedProcedure resolver ctx = Inr (resolver ctx))
   \<and> publicProcedure resolver' ctx = Inr (resolver' ctx)"
proof -
  have ok: "authorization = Some (''Bearer '' @ token)
      \<and> getUser' token = Returned (UserResponse (Some su) None)
      \<and> (su_email su \<noteq> None \<or> truthy (su_metadata_name su)) \<longrightarrow>
      (\<exists>u. toUser su = Inr u \<and> user_id u = su_id su \<and> email u = su_email su
         \<and> ctx_user (createContext authorization getUser' now) = Some u)"
  proof (intro impI, elim conjE)
    assume a: "authorization = Some (''Bearer '' @ token)"
      and g: "getUser' token = Returned (UserResponse (Some su) None)"
      and h: "su_email su \<noteq> None \<or> truthy (su_metadata_name su)"
    from toUser_ok [OF h] obtain u where
      u: "toUser su = Inr u" "user_id u = su_id su" "email u = su_email su" by blast
    from a g u(1) have "ctx_user (createContext authorization getUser' now) = Some u"
      by (simp add: createContext_def)
    with u show "\<exists>u. toUser su = Inr u \<and> user_id u = su_id su \<and> email u = su_email su
         \<and> ctx_user (createContext authorization getUser' now) = Some u" by blast
  qed
  have absent: "authorization = None \<or> (\<exists>h. authorization = Some h \<and> \<not> prefix ''Bearer '' h) \<longrightarrow>
      ctx_user (createContext authorization getUser' now) = None"
    by (auto simp: createContext_def)
  have failed: "authorization = Some (''Bearer '' @ token)
      \<and> (getUser' token = Threw e
           \<or> (\<exists>p. getUser' token = Returned p \<and> (user_error p \<noteq> None \<or> verified_user p = None)))
      \<longrightarrow> ctx_user (createContext authorization getUser' now) = None"
    by (auto simp: createContext_def split: option.splits)
  have guard: "(protectedProcedure resolver ctx = Inl UNAUTHORIZED \<longleftrightarrow> ctx_user ctx = None)
      \<and> (ctx_user ctx \<noteq> None \<longrightarrow> protectedProcedure resolver ctx = Inr (resolver ctx))
      \<and> publicProcedure resolver' ctx = Inr (resolver' ctx)"
    by (simp add: protectedProcedure_def publicProcedure_def)
  from ok absent failed guard show ?thesis by blast
qed

text \<open>
  A valid token, no header, and an expired token on the protected \<^verbatim>\<open>getUser\<close> and the
  public \<^verbatim>\<open>getAll\<close>.
\<close>

lemma createContext_builds_user_example:
  "ctx_user (createContext (Some ''Bearer tok'') verifier_of_alice 0) =
     Some \<lparr>user_id = ''u1'', email = Some ''alice@example.com'', name = Some ''alice''\<rparr>
   \<and> getUser (createContext (Some ''Bearer tok'') verifier_of_alice 0) =
     Inr (Some \<lparr>user_id = ''u1'', email = Some ''alice@example.com'', name = Some ''alice''\<rparr>)
   \<and> ctx_user (createContext None verifier_of_alice 0) = None
   \<and> ctx_user (createContext (Some ''Bearer expired'') verifier_of_alice 0) = None
   \<and> getUser (createContext (Some ''Bearer expired'') verifier_of_alice 0) = Inl UNAUTHORIZED
   \<and> getAll (createContext (Some ''Bearer expired'') verifier_of_alice 0) =
     Inr [(1, ''First post''), (2, ''Second post'')]"
proof -
  have t: "toUser (SupabaseUser ''u1'' (Some ''alice@example.com'') None) =
      Inr \<lparr>user_id = ''u1'', email = Some ''alice@example.com'', name = Some ''alice''\<rparr>"
    by (simp add: toUser_def truthy_def local_part_def)
  have 1: "ctx_user (createContext (Some ''Bearer tok'') verifier_of_alice 0) =
     Some \<lparr>user_id = ''u1'', email = Some ''alice@example.com'', name = Some ''alice''\<rparr>"
    using createContext_builds_user [where authorization = "Some ''Bearer tok''" and token = "''tok''"
        and getUser' = verifier_of_alice
        and su = "SupabaseUser ''u1'' (Some ''alice@example.com'') None" and now = 0,
        THEN conjunct1] t
    by (auto simp: verifier_of_alice_def)
  have 2: "ctx_user (createContext None verifier_of_alice 0) = None"
    using createContext_builds_user [where authorization = None and getUser' = verifier_of_alice
        and now = 0, THEN conjunct2, THEN conjunct1]
    by simp
  have 3: "ctx_user (createContext (Some ''Bearer expired'') verifier_of_alice 0) = None"
    using createContext_builds_user [where authorization = "Some ''Bearer expired''"
        and token = "''expired''" and getUser' = verifier_of_alice and now = 0,
        THEN conjunct2, THEN conjunct2, THEN conjunct1]
    by (simp add: verifier_of_alice_def)
  have 4: "getUser (createContext (Some ''Bearer expired'') verifier_of_alice 0) = Inl UNAUTHORIZED"
    using 3 createContext_builds_user [where resolver = "\<lambda>c. ctx_user c"
        and ctx = "createContext (Some ''Bearer expired'') verifier_of_alice 0",
        THEN conjunct2, THEN conjunct2, THEN conjunct2, THEN conjunct1]
    by (simp add: getUser_def)
  have 5: "getUser (createContext (Some ''Bearer tok'') verifier_of_alice 0) =
     Inr (Some \<lparr>user_id = ''u1'', email = Some ''alice@example.com'', name = Some ''alice''\<rparr>)"
    using 1 createContext_builds_user [where resolver = "\<lambda>c. ctx_user c"
        and ctx = "createContext (Some ''Bearer tok'') verifier_of_alice 0",
        THEN conjunct2, THEN conjunct2, THEN conjunct2, THEN conjunct2, THEN conjunct1]
    by (simp add: getUser_def)
  have 6: "getAll (createContext (Some ''Bearer expired'') verifier_of_alice 0) =
     Inr [(1, ''First post''), (2, ''Second post'')]"
    by (simp add: getAll_def publicProcedure_def)
  from 1 2 3 4 5 6 show ?thesis by simp
qed


text \<open>
  The sibling case: a verified user with a display name and no email address. The
  \<^verbatim>\<open>||\<close> stops at the name, \<^verbatim>\<open>email!.split\<close> is not evaluated, and the context names the
  user.
\<close>

lemma createContext_user_with_name_only:
  "ctx_user (createContext (Some ''Bearer tok'') verifier_of_named 0) =
     Some \<lparr>user_id = ''u1'', email = None, name = Some ''Bob''\<rparr>"
  by (simp add: createContext_def verifier_of_named_def toUser_def truthy_def)


end
